theory Spec2Isabelle
  imports Main
begin

section \<open>Python values and the library functions that main.py calls\<close>

text \<open>
  A Python \<open>str\<close> is a \<open>string\<close>; one \<open>char\<close> stands for one code point below 256.
  The values that \<open>json.loads\<close> returns and \<open>json.dumps\<close> accepts are the datatype
  \<open>json\<close>. A float is carried as the text that \<open>json.dumps\<close> writes for it; a dict is
  an association list in insertion order.
\<close>

datatype json =
    JNull
  | JBool bool
  | JInt int
  | JFloat string
  | JStr string
  | JArr "json list"
  | JObj "(string \<times> json) list"

text \<open>Python truthiness, as \<open>not x\<close> tests it.\<close>

fun truthy :: "json \<Rightarrow> bool" where
  "truthy JNull = False"
| "truthy (JBool b) = b"
| "truthy (JInt n) = (n \<noteq> 0)"
| "truthy (JFloat s) = (s \<noteq> ''0.0'' \<and> s \<noteq> ''-0.0'')"
| "truthy (JStr s) = (s \<noteq> [])"
| "truthy (JArr xs) = (xs \<noteq> [])"
| "truthy (JObj kvs) = (kvs \<noteq> [])"

text \<open>\<open>d.get(k)\<close> on a dict: \<open>None\<close> when the key is missing.\<close>

definition dict_get :: "(string \<times> json) list \<Rightarrow> string \<Rightarrow> json" where
  "dict_get kvs k = (case map_of kvs k of None \<Rightarrow> JNull | Some v \<Rightarrow> v)"

text \<open>\<open>sep.join(xs)\<close>.\<close>

fun join :: "string \<Rightarrow> string list \<Rightarrow> string" where
  "join sep [] = []"
| "join sep [x] = x"
| "join sep (x # y # ys) = x @ sep @ join sep (y # ys)"

subsection \<open>Digits\<close>

definition hex_upper :: "nat \<Rightarrow> char" where
  "hex_upper n = ''0123456789ABCDEF'' ! (n mod 16)"

definition hex_lower :: "nat \<Rightarrow> char" where
  "hex_lower n = ''0123456789abcdef'' ! (n mod 16)"

definition digit_char :: "nat \<Rightarrow> char" where
  "digit_char n = ''0123456789'' ! (n mod 10)"

text \<open>Decimal text of a number, as \<open>str\<close> and \<open>json.dumps\<close> write it.\<close>

function show_nat :: "nat \<Rightarrow> string" where
  "show_nat n =
     (if n < 10 then [digit_char n] else show_nat (n div 10) @ [digit_char (n mod 10)])"
  by pat_completeness auto
termination
  by (relation "measure (\<lambda>n. n)") auto

declare show_nat.simps [simp del]

definition show_int :: "int \<Rightarrow> string" where
  "show_int i = (if i < 0 then CHR ''-'' # show_nat (nat (- i)) else show_nat (nat i))"

subsection \<open>\<open>str.encode()\<close>, \<open>urllib.parse.quote\<close>, \<open>base64.b64encode\<close>\<close>

text \<open>UTF-8 bytes of a code point below 256.\<close>

definition utf8 :: "char \<Rightarrow> nat list" where
  "utf8 c = (let n = (of_char c :: nat) in
     if n < 128 then [n] else [192 + n div 64, 128 + n mod 64])"

definition encode :: "string \<Rightarrow> nat list" where
  "encode s = concat (map utf8 s)"

text \<open>
  \<open>quote(s)\<close> with the default \<open>safe='/'\<close>: letters, digits and \<open>_ . - ~ /\<close> are kept,
  every other byte of the UTF-8 encoding becomes \<open>%XX\<close>.
\<close>

definition always_safe :: "nat \<Rightarrow> bool" where
  "always_safe b \<longleftrightarrow>
     (65 \<le> b \<and> b \<le> 90) \<or> (97 \<le> b \<and> b \<le> 122) \<or> (48 \<le> b \<and> b \<le> 57)
     \<or> b = 95 \<or> b = 46 \<or> b = 45 \<or> b = 126"

definition quote_byte :: "nat \<Rightarrow> string" where
  "quote_byte b =
     (if always_safe b \<or> b = 47 then [char_of b]
      else [CHR ''%'', hex_upper (b div 16), hex_upper (b mod 16)])"

definition quote :: "string \<Rightarrow> string" where
  "quote s = concat (map quote_byte (encode s))"



definition b64_char :: "nat \<Rightarrow> char" where
  "b64_char n =
     ''ABCDEFGHIJKLMNOPQRSTUVWXYZabcdefghijklmnopqrstuvwxyz0123456789+/'' ! (n mod 64)"

fun b64_groups :: "nat list \<Rightarrow> string" where
  "b64_groups [] = []"
| "b64_groups [a] =
     [b64_char (a div 4), b64_char ((a mod 4) * 16), CHR ''='', CHR ''='']"
| "b64_groups [a, b] =
     [b64_char (a div 4), b64_char ((a mod 4) * 16 + b div 16),
      b64_char ((b mod 16) * 4), CHR ''='']"
| "b64_groups (a # b # c # rest) =
     [b64_char (a div 4), b64_char ((a mod 4) * 16 + b div 16),
      b64_char ((b mod 16) * 4 + c div 64), b64_char (c mod 64)] @ b64_groups rest"

text \<open>\<open>base64.b64encode(s.encode()).decode()\<close>.\<close>

definition b64encode :: "string \<Rightarrow> string" where
  "b64encode s = b64_groups (encode s)"

subsection \<open>\<open>json.dumps(v, separators=(",", ":"))\<close>\<close>

text \<open>
  With \<open>ensure_ascii\<close> left at its default, a quote, a backslash and the usual control
  characters get their two-character escapes, and every other character outside
  \<open>' '..'~'\<close> is written \<open>\uXXXX\<close> in lower-case hex.
\<close>

definition json_escape_char :: "char \<Rightarrow> string" where
  "json_escape_char c = (let n = (of_char c :: nat) in
     if n = 34 then [CHR 0x5C, CHR 0x22]
     else if n = 92 then [CHR 0x5C, CHR 0x5C]
     else if n = 8 then [CHR 0x5C, CHR ''b'']
     else if n = 12 then [CHR 0x5C, CHR ''f'']
     else if n = 10 then [CHR 0x5C, CHR ''n'']
     else if n = 13 then [CHR 0x5C, CHR ''r'']
     else if n = 9 then [CHR 0x5C, CHR ''t'']
     else if 32 \<le> n \<and> n \<le> 126 then [c]
     else [CHR 0x5C, CHR ''u'', CHR ''0'', CHR ''0'', hex_lower (n div 16), hex_lower (n mod 16)])"

definition dumps_str :: "string \<Rightarrow> string" where
  "dumps_str s = [CHR 0x22] @ concat (map json_escape_char s) @ [CHR 0x22]"

fun json_dumps :: "json \<Rightarrow> string" where
  "json_dumps JNull = ''null''"
| "json_dumps (JBool b) = (if b then ''true'' else ''false'')"
| "json_dumps (JInt n) = show_int n"
| "json_dumps (JFloat s) = s"
| "json_dumps (JStr s) = dumps_str s"
| "json_dumps (JArr xs) = ''['' @ join '','' (map json_dumps xs) @ '']''"
| "json_dumps (JObj kvs) =
     ''{'' @ join '','' (map (\<lambda>(k, v). dumps_str k @ '':'' @ json_dumps v) kvs) @ ''}''"

text \<open>
  The parts of the Python runtime that main.py relies on and that are taken as given:
  the parser \<open>json.loads\<close> (\<open>None\<close> stands for \<open>json.JSONDecodeError\<close>) and \<open>str(v)\<close>
  of a value that is not a string, as an f-string formats it.
\<close>

record pylib =
  json_loads :: "string \<Rightarrow> json option"
  py_str :: "json \<Rightarrow> string"

text \<open>\<open>f"{v}"\<close>.\<close>

definition format_value :: "pylib \<Rightarrow> json \<Rightarrow> string" where
  "format_value lib v = (case v of JStr s \<Rightarrow> s | _ \<Rightarrow> py_str lib v)"

section \<open>Exceptions and the world outside the process\<close>

text \<open>
  Every \<open>raise\<close> of main.py and every exception of a library call that it can catch is a
  value of \<open>exn\<close>. \<open>HTTPException status detail\<close> is FastAPI's, which the framework turns
  into the response with that status. \<open>HTTPStatusError\<close> and \<open>TransportError\<close> are the two
  subclasses of \<open>httpx.HTTPError\<close>; \<open>InvalidURL\<close> is httpx's too but not an \<open>HTTPError\<close>.
  \<open>RedisError\<close> is what a redis command raises when the server is not reached.
\<close>

datatype exn =
    HTTPException nat string
  | KeyError string
  | JSONDecodeError
  | AttributeError
  | RedisError
  | HTTPStatusError nat
  | TransportError
  | InvalidURL

fun is_HTTPException :: "exn \<Rightarrow> bool" where
  "is_HTTPException (HTTPException s d) = True"
| "is_HTTPException e = False"

fun is_httpx_HTTPError :: "exn \<Rightarrow> bool" where
  "is_httpx_HTTPError (HTTPStatusError s) = True"
| "is_httpx_HTTPError TransportError = True"
| "is_httpx_HTTPError e = False"

text \<open>
  An outbound \<open>httpx.post\<close> and what becomes of it: the peer answers with a status and a
  body, or the call fails on the way (connection, timeout, protocol), or httpx refuses
  the URL before anything is sent.
\<close>

record http_request =
  post_url :: string
  post_headers :: "(string \<times> string) list"
  post_json :: "json option"
  post_timeout :: nat

datatype http_outcome =
    Response nat string
  | NoResponse
  | BadURL

text \<open>
  The world holds what main.py reaches through \<open>os.getenv\<close>, the redis client, httpx and
  \<open>uuid.uuid4\<close>. A redis entry is its value and, when it has a TTL, the time at which it
  expires; \<open>redis_clock\<close> is the server's time in seconds. \<open>redis_reached w n\<close> tells whether
  the \<open>n\<close>-th command of the process reaches the server. \<open>http_posts\<close> lists the POST calls
  made so far, \<open>uuid4_draw\<close> is the source of random UUIDs, already formatted by \<open>str\<close>.
  \<open>redis_client\<close> is the module's global handle: the URL it was created from, once created.
\<close>

record world =
  environ :: "string \<rightharpoonup> string"
  redis_client :: "string option"
  redis_data :: "string \<rightharpoonup> (string \<times> nat option)"
  redis_clock :: nat
  redis_reached :: "nat \<Rightarrow> bool"
  redis_calls :: nat
  http_peer :: "http_request \<Rightarrow> http_outcome"
  http_posts :: "http_request list"
  uuid4_draw :: "nat \<Rightarrow> string"
  uuid4_calls :: nat

type_synonym 'a io = "world \<Rightarrow> (exn + 'a) \<times> world"

subsection \<open>\<open>os.getenv\<close>\<close>

definition getenv :: "world \<Rightarrow> string \<Rightarrow> string option" where
  "getenv w k = environ w k"

definition getenv_default :: "world \<Rightarrow> string \<Rightarrow> string \<Rightarrow> string" where
  "getenv_default w k d = (case environ w k of None \<Rightarrow> d | Some v \<Rightarrow> v)"

subsection \<open>The redis client\<close>

text \<open>What the server holds under a key now: an entry past its expiry is gone.\<close>

definition redis_live :: "world \<Rightarrow> string \<Rightarrow> string option" where
  "redis_live w k =
     (case redis_data w k of
        None \<Rightarrow> None
      | Some (v, None) \<Rightarrow> Some v
      | Some (v, Some t) \<Rightarrow> (if redis_clock w < t then Some v else None))"

definition redis_get :: "string \<Rightarrow> string option io" where
  "redis_get k w =
     (let w' = w\<lparr>redis_calls := Suc (redis_calls w)\<rparr> in
      if redis_reached w (redis_calls w) then (Inr (redis_live w k), w')
      else (Inl RedisError, w'))"

definition redis_setex :: "string \<Rightarrow> nat \<Rightarrow> string \<Rightarrow> unit io" where
  "redis_setex k ttl v w =
     (let w' = w\<lparr>redis_calls := Suc (redis_calls w)\<rparr> in
      if redis_reached w (redis_calls w)
      then (Inr (), w'\<lparr>redis_data := (redis_data w)(k \<mapsto> (v, Some (redis_clock w + ttl)))\<rparr>)
      else (Inl RedisError, w'))"

definition redis_set :: "string \<Rightarrow> string \<Rightarrow> unit io" where
  "redis_set k v w =
     (let w' = w\<lparr>redis_calls := Suc (redis_calls w)\<rparr> in
      if redis_reached w (redis_calls w)
      then (Inr (), w'\<lparr>redis_data := (redis_data w)(k \<mapsto> (v, None))\<rparr>)
      else (Inl RedisError, w'))"

subsection \<open>httpx\<close>

definition httpx_post :: "http_request \<Rightarrow> (nat \<times> string) io" where
  "httpx_post req w =
     (let w' = w\<lparr>http_posts := http_posts w @ [req]\<rparr> in
      case http_peer w req of
        Response status body \<Rightarrow> (Inr (status, body), w')
      | NoResponse \<Rightarrow> (Inl TransportError, w')
      | BadURL \<Rightarrow> (Inl InvalidURL, w))"

text \<open>\<open>resp.raise_for_status()\<close>: every status outside 2xx raises.\<close>

definition raise_for_status :: "nat \<Rightarrow> exn + unit" where
  "raise_for_status status =
     (if 200 \<le> status \<and> status < 300 then Inr () else Inl (HTTPStatusError status))"

subsection \<open>\<open>uuid.uuid4\<close>\<close>

definition uuid4_str :: "world \<Rightarrow> string \<times> world" where
  "uuid4_str w = (uuid4_draw w (uuid4_calls w), w\<lparr>uuid4_calls := Suc (uuid4_calls w)\<rparr>)"

section \<open>main.py\<close>

text \<open>
  Logging calls are left out: they do not change the result. A \<open>try\<close> block is a
  definition of its own, named \<open>..._try\<close>, and the function around it is its \<open>except\<close>
  clauses, in the order of the source.
\<close>

subsection \<open>Configuration\<close>

text \<open>
  \<open>get_redis_client\<close>: the handle is created on first use, from \<open>REDIS_URL\<close>, and kept.
  Creating it does not contact the server; the commands do.
\<close>

definition get_redis_client :: "world \<Rightarrow> world" where
  "get_redis_client w =
     (if redis_client w = None
      then w\<lparr>redis_client := Some (getenv_default w ''REDIS_URL'' ''redis://localhost:6379/0'')\<rparr>
      else w)"

definition DEFAULT_SCOPES :: "string list" where
  "DEFAULT_SCOPES = [''Mail.Read'', ''Mail.Send'']"

record config =
  client_id :: string
  client_secret :: string
  scopes :: "string list"

text \<open>\<open>not x\<close> for the result of \<open>os.getenv\<close>: unset or empty.\<close>

fun not_set :: "string option \<Rightarrow> bool" where
  "not_set None = True"
| "not_set (Some v) = (v = [])"

definition get_aurinko_config :: "world \<Rightarrow> exn + config" where
  "get_aurinko_config w =
     (case (getenv w ''AURINKO_CLIENT_ID'', getenv w ''AURINKO_CLIENT_SECRET'') of
        (Some cid, Some secret) \<Rightarrow>
          if cid = [] \<or> secret = [] then Inl (HTTPException 500 ''Server misconfiguration'')
          else Inr \<lparr>client_id = cid, client_secret = secret, scopes = DEFAULT_SCOPES\<rparr>
      | _ \<Rightarrow> Inl (HTTPException 500 ''Server misconfiguration''))"

subsection \<open>Internal helpers\<close>

definition save_oauth_state_try :: "string \<Rightarrow> json \<Rightarrow> nat \<Rightarrow> unit io" where
  "save_oauth_state_try state payload ttl w =
     redis_setex state ttl (json_dumps payload) (get_redis_client w)"

definition save_oauth_state :: "string \<Rightarrow> json \<Rightarrow> nat \<Rightarrow> unit io" where
  "save_oauth_state state payload ttl w =
     (case save_oauth_state_try state payload ttl w of
        (Inr u, w') \<Rightarrow> (Inr u, w')
      | (Inl e, w') \<Rightarrow> (Inl (HTTPException 500 ''Internal error''), w'))"

definition load_oauth_state_try :: "pylib \<Rightarrow> string \<Rightarrow> json io" where
  "load_oauth_state_try lib state w =
     (case redis_get state (get_redis_client w) of
        (Inl e, w') \<Rightarrow> (Inl e, w')
      | (Inr raw, w') \<Rightarrow>
          if not_set raw then (Inl (KeyError ''state not found or expired''), w')
          else (case json_loads lib (the raw) of
                  None \<Rightarrow> (Inl JSONDecodeError, w')
                | Some v \<Rightarrow> (Inr v, w')))"

definition load_oauth_state :: "pylib \<Rightarrow> string \<Rightarrow> json io" where
  "load_oauth_state lib state w =
     (case load_oauth_state_try lib state w of
        (Inr v, w') \<Rightarrow> (Inr v, w')
      | (Inl e, w') \<Rightarrow>
          if e = JSONDecodeError then (Inl (HTTPException 400 ''Corrupted state''), w')
          else (Inl (HTTPException 400 ''Invalid state''), w'))"

definition exchange_request :: "config \<Rightarrow> string \<Rightarrow> http_request" where
  "exchange_request cfg code =
     \<lparr>post_url = ''https://api.aurinko.io/v1/auth/token/'' @ code,
      post_headers =
        [(''Authorization'',
          ''Basic '' @ b64encode (client_id cfg @ '':'' @ client_secret cfg))],
      post_json = None,
      post_timeout = 15\<rparr>"

definition exchange_code_for_token_try :: "pylib \<Rightarrow> http_request \<Rightarrow> json io" where
  "exchange_code_for_token_try lib req w =
     (case httpx_post req w of
        (Inl e, w') \<Rightarrow> (Inl e, w')
      | (Inr (status, body), w') \<Rightarrow>
          (case raise_for_status status of
             Inl e \<Rightarrow> (Inl e, w')
           | Inr u \<Rightarrow>
               (case json_loads lib body of
                  None \<Rightarrow> (Inl JSONDecodeError, w')
                | Some v \<Rightarrow> (Inr v, w'))))"

definition exchange_code_for_token :: "pylib \<Rightarrow> string \<Rightarrow> json io" where
  "exchange_code_for_token lib code w =
     (case get_aurinko_config w of
        Inl e \<Rightarrow> (Inl e, w)
      | Inr cfg \<Rightarrow>
          (case exchange_code_for_token_try lib (exchange_request cfg code) w of
             (Inr v, w') \<Rightarrow> (Inr v, w')
           | (Inl e, w') \<Rightarrow>
               if is_httpx_HTTPError e
               then (Inl (HTTPException 502 ''Token exchange with Aurinko failed''), w')
               else (Inl e, w')))"

subsection \<open>Persistence and notifications\<close>

text \<open>\<open>persist_token\<close> logs and re-raises whatever its \<open>try\<close> block raises.\<close>

definition persist_token :: "pylib \<Rightarrow> json \<Rightarrow> json \<Rightarrow> unit io" where
  "persist_token lib user_id token_res w =
     redis_set (''email-token:'' @ format_value lib user_id) (json_dumps token_res)
       (get_redis_client w)"

definition webhook_request :: "string \<Rightarrow> json \<Rightarrow> http_request" where
  "webhook_request webhook_url user_id =
     \<lparr>post_url = webhook_url,
      post_headers = [],
      post_json = Some (JObj [(''userId'', user_id)]),
      post_timeout = 10\<rparr>"

definition notify_webhook_try :: "string \<Rightarrow> json \<Rightarrow> unit io" where
  "notify_webhook_try webhook_url user_id w =
     (case httpx_post (webhook_request webhook_url user_id) w of
        (Inl e, w') \<Rightarrow> (Inl e, w')
      | (Inr (status, body), w') \<Rightarrow> (raise_for_status status, w'))"

definition notify_webhook :: "json \<Rightarrow> unit io" where
  "notify_webhook user_id w =
     (let webhook_url = getenv w ''WEBHOOK_URL'' in
      if not_set webhook_url then (Inr (), w)
      else (case notify_webhook_try (the webhook_url) user_id w of
              (Inr u, w') \<Rightarrow> (Inr (), w')
            | (Inl e, w') \<Rightarrow> if is_httpx_HTTPError e then (Inr (), w') else (Inl e, w')))"

subsection \<open>Endpoints\<close>

text \<open>
  What a handler sees of the request: its headers, the scheme and the host of
  \<open>request.url\<close>, \<open>request.base_url\<close>, and the query string that came in, held as the
  text that its bytes are in UTF-8. The query parameters that a handler declares
  (\<open>userId\<close>, \<open>code\<close>, \<open>state\<close>) are its arguments; the framework answers a request that
  lacks one before the handler runs.
\<close>

record request =
  headers :: "string \<rightharpoonup> string"
  url_scheme :: string
  url_netloc :: string
  query_string :: string
  base_url :: string


text \<open>
  \<open>RedirectResponse url\<close> is the call that a handler makes. The redirect target that the
  user agent receives is the \<open>Location\<close> header that Starlette's \<open>RedirectResponse\<close>
  writes: \<open>quote(str(url), safe=":/%#?=@[]!$&'()*+,;")\<close>.
\<close>

datatype response = RedirectResponse string




text \<open>\<open>except HTTPException: raise\<close>, \<open>except Exception: raise HTTPException(500, ...)\<close>.\<close>

definition reraise_or_500 :: "(exn + 'a) \<times> world \<Rightarrow> (exn + 'a) \<times> world" where
  "reraise_or_500 r =
     (case r of
        (Inr v, w') \<Rightarrow> (Inr v, w')
      | (Inl e, w') \<Rightarrow>
          if is_HTTPException e then (Inl e, w')
          else (Inl (HTTPException 500 ''Internal server error''), w'))"

text \<open>Lines 157 to 159: the base URL that \<open>init_oauth\<close> derives.\<close>

definition init_base_url :: "request \<Rightarrow> world \<Rightarrow> string" where
  "init_base_url request w =
     (let scheme = (case headers request ''x-forwarded-proto'' of
                      None \<Rightarrow> url_scheme request | Some v \<Rightarrow> v);
          host = (case headers request ''x-forwarded-host'' of
                    None \<Rightarrow> url_netloc request | Some v \<Rightarrow> v)
      in getenv_default w ''BASE_URL'' (scheme @ ''://'' @ host))"

definition authorize_url :: "config \<Rightarrow> string \<Rightarrow> string \<Rightarrow> string" where
  "authorize_url cfg base state =
     (let service_type = ''Google'';
          scopes_q = quote (join '' '' (scopes cfg));
          response_type = ''code'';
          return_url = quote (base @ ''/auth/callback'')
      in ''https://api.aurinko.io/v1/auth/authorize''
         @ ''?clientId='' @ client_id cfg
         @ ''&serviceType='' @ service_type
         @ ''&scopes='' @ scopes_q
         @ ''&responseType='' @ response_type
         @ ''&returnUrl='' @ return_url
         @ ''&state='' @ state)"

definition init_oauth_try :: "request \<Rightarrow> string \<Rightarrow> response io" where
  "init_oauth_try request userId w =
     (case get_aurinko_config w of
        Inl e \<Rightarrow> (Inl e, w)
      | Inr cfg \<Rightarrow>
          (case uuid4_str w of
             (state, w1) \<Rightarrow>
               (case save_oauth_state state (JObj [(''userId'', JStr userId)]) 600 w1 of
                  (Inl e, w2) \<Rightarrow> (Inl e, w2)
                | (Inr u, w2) \<Rightarrow>
                    (Inr (RedirectResponse
                            (authorize_url cfg (init_base_url request w2) state)), w2))))"

definition init_oauth :: "request \<Rightarrow> string \<Rightarrow> response io" where
  "init_oauth request userId w = reraise_or_500 (init_oauth_try request userId w)"


text \<open>\<open>stored.get("userId")\<close>: only a dict has \<open>get\<close>.\<close>

definition stored_get_userId :: "json \<Rightarrow> exn + json" where
  "stored_get_userId stored =
     (case stored of JObj kvs \<Rightarrow> Inr (dict_get kvs ''userId'') | _ \<Rightarrow> Inl AttributeError)"

definition success_url :: "request \<Rightarrow> world \<Rightarrow> string" where
  "success_url request w =
     getenv_default w ''OAUTH_SUCCESS_URL'' (base_url request @ ''auth/success'')"

definition oauth_callback_try :: "pylib \<Rightarrow> request \<Rightarrow> string \<Rightarrow> string \<Rightarrow> response io" where
  "oauth_callback_try lib request code state w =
     (case load_oauth_state lib state w of
        (Inl e, w1) \<Rightarrow> (Inl e, w1)
      | (Inr stored, w1) \<Rightarrow>
          (case stored_get_userId stored of
             Inl e \<Rightarrow> (Inl e, w1)
           | Inr user_id \<Rightarrow>
               if \<not> truthy user_id then (Inl (HTTPException 400 ''Invalid state data''), w1)
               else
                 (case exchange_code_for_token lib code w1 of
                    (Inl e, w2) \<Rightarrow> (Inl e, w2)
                  | (Inr token_res, w2) \<Rightarrow>
                      (case persist_token lib user_id token_res w2 of
                         (Inl e, w3) \<Rightarrow> (Inl e, w3)
                       | (Inr u, w3) \<Rightarrow>
                           (case notify_webhook user_id w3 of
                              (Inl e, w4) \<Rightarrow> (Inl e, w4)
                            | (Inr u', w4) \<Rightarrow>
                                (Inr (RedirectResponse (success_url request w4)), w4))))))"

definition oauth_callback :: "pylib \<Rightarrow> request \<Rightarrow> string \<Rightarrow> string \<Rightarrow> response io" where
  "oauth_callback lib request code state w =
     reraise_or_500 (oauth_callback_try lib request code state w)"

section \<open>Sample data\<close>

text \<open>
  A runtime whose parser knows two texts, a provider that accepts the code \<open>good\<close> and
  rejects \<open>bad\<close>, a store with one live and one expired state, a request that came
  through a proxy, a webhook that answers 503 and a webhook URL with a port that is
  not a number, which httpx refuses.
\<close>

definition sample_state :: json where
  "sample_state = JObj [(''userId'', JStr ''u1'')]"

definition sample_token :: json where
  "sample_token = JObj [(''accessToken'', JStr ''tok''), (''accountId'', JInt 42)]"

definition sample_lib :: pylib where
  "sample_lib =
     \<lparr>json_loads = (\<lambda>s. if s = json_dumps sample_state then Some sample_state
                         else if s = json_dumps sample_token then Some sample_token
                         else None),
      py_str = (\<lambda>v. case v of JInt n \<Rightarrow> show_int n | _ \<Rightarrow> [])\<rparr>"

definition sample_peer :: "http_request \<Rightarrow> http_outcome" where
  "sample_peer req =
     (if post_url req = ''https://api.aurinko.io/v1/auth/token/good''
      then Response 200 (json_dumps sample_token)
      else if post_url req = ''https://api.aurinko.io/v1/auth/token/bad''
      then Response 401 []
      else if post_url req = ''https://hooks.example.com/connected''
      then Response 503 []
      else if post_url req = ''https://hooks.example.com:port/connected''
      then BadURL
      else NoResponse)"

definition sample_world :: world where
  "sample_world =
     \<lparr>environ = [''AURINKO_CLIENT_ID'' \<mapsto> ''id'', ''AURINKO_CLIENT_SECRET'' \<mapsto> ''secret''],
      redis_client = None,
      redis_data = [''st-live'' \<mapsto> (json_dumps sample_state, Some 600),
                    ''st-old'' \<mapsto> (json_dumps sample_state, Some 50)],
      redis_clock = 100,
      redis_reached = (\<lambda>n. True),
      redis_calls = 0,
      http_peer = sample_peer,
      http_posts = [],
      uuid4_draw = (\<lambda>n. if n = 0 then ''3f2b8c1e-5d4a-4e6f-9a7b-0c1d2e3f4a5b''
                         else ''9c0e7d42-1b6a-4f3e-8d5c-00000000'' @ show_nat (1000 + n)),
      uuid4_calls = 0\<rparr>"

definition sample_request :: request where
  "sample_request =
     \<lparr>headers = [''x-forwarded-proto'' \<mapsto> ''https'', ''x-forwarded-host'' \<mapsto> ''app.example.com''],
      url_scheme = ''http'',
      url_netloc = ''10.0.0.5:8000'',
      query_string = ''code=good&state=st-live'',
      base_url = ''http://10.0.0.5:8000/''\<rparr>"

definition sample_world_hook :: world where
  "sample_world_hook =
     sample_world\<lparr>environ := (environ sample_world)
                     (''WEBHOOK_URL'' \<mapsto> ''https://hooks.example.com/connected'')\<rparr>"

definition sample_world_badhook :: world where
  "sample_world_badhook =
     sample_world\<lparr>environ := (environ sample_world)
                     (''WEBHOOK_URL'' \<mapsto> ''https://hooks.example.com:port/connected'')\<rparr>"


definition sample_world_down :: world where
  "sample_world_down = sample_world\<lparr>redis_reached := (\<lambda>n. False)\<rparr>"

section \<open>Properties\<close>

subsection \<open>The helpers, step by step\<close>

lemma get_redis_client_fields [simp]:
  "environ (get_redis_client w) = environ w"
  "redis_data (get_redis_client w) = redis_data w"
  "redis_clock (get_redis_client w) = redis_clock w"
  "redis_reached (get_redis_client w) = redis_reached w"
  "redis_calls (get_redis_client w) = redis_calls w"
  "http_peer (get_redis_client w) = http_peer w"
  "http_posts (get_redis_client w) = http_posts w"
  "uuid4_draw (get_redis_client w) = uuid4_draw w"
  "uuid4_calls (get_redis_client w) = uuid4_calls w"
  by (simp_all add: get_redis_client_def)

lemma redis_live_get_redis_client [simp]:
  "redis_live (get_redis_client w) k = redis_live w k"
  by (simp add: redis_live_def split: option.splits prod.splits)

lemma load_absent:
  assumes "redis_live w state = None"
  shows "load_oauth_state lib state w =
           (Inl (HTTPException 400 ''Invalid state''),
            (get_redis_client w)\<lparr>redis_calls := Suc (redis_calls w)\<rparr>)"
  using assms
  by (simp add: load_oauth_state_def load_oauth_state_try_def redis_get_def Let_def)

lemma load_unreachable:
  assumes "\<not> redis_reached w (redis_calls w)"
  shows "load_oauth_state lib state w =
           (Inl (HTTPException 400 ''Invalid state''),
            (get_redis_client w)\<lparr>redis_calls := Suc (redis_calls w)\<rparr>)"
  using assms
  by (simp add: load_oauth_state_def load_oauth_state_try_def redis_get_def Let_def)

lemma load_present:
  assumes "redis_reached w (redis_calls w)" "redis_live w state = Some raw" "raw \<noteq> []"
    "json_loads lib raw = Some v"
  shows "load_oauth_state lib state w =
           (Inr v, (get_redis_client w)\<lparr>redis_calls := Suc (redis_calls w)\<rparr>)"
  using assms
  by (simp add: load_oauth_state_def load_oauth_state_try_def redis_get_def Let_def)

lemma exchange_fails:
  assumes "get_aurinko_config w = Inr cfg"
    and "http_peer w (exchange_request cfg code) = NoResponse
         \<or> (\<exists>status body. http_peer w (exchange_request cfg code) = Response status body
              \<and> \<not> (200 \<le> status \<and> status < 300))"
  shows "exchange_code_for_token lib code w =
           (Inl (HTTPException 502 ''Token exchange with Aurinko failed''),
            w\<lparr>http_posts := http_posts w @ [exchange_request cfg code]\<rparr>)"
  using assms
  by (auto simp add: exchange_code_for_token_def exchange_code_for_token_try_def httpx_post_def
      raise_for_status_def Let_def)

lemma exchange_succeeds:
  assumes "get_aurinko_config w = Inr cfg"
    and "http_peer w (exchange_request cfg code) = Response status body"
    and "200 \<le> status" "status < 300"
    and "json_loads lib body = Some token_res"
  shows "exchange_code_for_token lib code w =
           (Inr token_res, w\<lparr>http_posts := http_posts w @ [exchange_request cfg code]\<rparr>)"
  using assms
  by (simp add: exchange_code_for_token_def exchange_code_for_token_try_def httpx_post_def
      raise_for_status_def Let_def)



lemma persist_reached:
  assumes "redis_reached w (redis_calls w)"
  shows "persist_token lib user_id token_res w =
           (Inr (), (get_redis_client w)
              \<lparr>redis_calls := Suc (redis_calls w),
               redis_data := (redis_data w)
                 (''email-token:'' @ format_value lib user_id \<mapsto> (json_dumps token_res, None))\<rparr>)"
  using assms by (simp add: persist_token_def redis_set_def Let_def)

lemma notify_webhook_keeps:
  "redis_data (snd (notify_webhook user_id w)) = redis_data w"
  "environ (snd (notify_webhook user_id w)) = environ w"
  by (simp_all add: notify_webhook_def notify_webhook_try_def httpx_post_def Let_def
      split: http_outcome.splits sum.splits)

lemma notify_webhook_unset:
  assumes "not_set (getenv w ''WEBHOOK_URL'')"
  shows "notify_webhook user_id w = (Inr (), w)"
  using assms by (simp add: notify_webhook_def)

lemma notify_webhook_swallows:
  assumes "\<not> not_set (getenv w ''WEBHOOK_URL'')"
    and "http_peer w (webhook_request (the (getenv w ''WEBHOOK_URL'')) user_id) \<noteq> BadURL"
  shows "notify_webhook user_id w =
           (Inr (), w\<lparr>http_posts := http_posts w
                        @ [webhook_request (the (getenv w ''WEBHOOK_URL'')) user_id]\<rparr>)"
  using assms
  by (simp add: notify_webhook_def notify_webhook_try_def httpx_post_def Let_def
      raise_for_status_def split: http_outcome.splits)

lemma callback_to_notify:
  assumes "redis_reached w (redis_calls w)"
    and "redis_live w state = Some raw" and "raw \<noteq> []"
    and "json_loads lib raw = Some (JObj kvs)"
    and "truthy (dict_get kvs ''userId'')"
    and "get_aurinko_config w = Inr cfg"
    and "http_peer w (exchange_request cfg code) = Response status body"
    and "200 \<le> status" and "status < 300"
    and "json_loads lib body = Some token_res"
    and "redis_reached w (Suc (redis_calls w))"
  shows "\<exists>w3. oauth_callback_try lib request code state w =
           (case notify_webhook (dict_get kvs ''userId'') w3 of
              (Inl e, w4) \<Rightarrow> (Inl e, w4)
            | (Inr u, w4) \<Rightarrow> (Inr (RedirectResponse (success_url request w4)), w4))
         \<and> environ w3 = environ w
         \<and> http_peer w3 = http_peer w
         \<and> http_posts w3 = http_posts w @ [exchange_request cfg code]
         \<and> redis_data w3 = (redis_data w)
              (''email-token:'' @ format_value lib (dict_get kvs ''userId'')
                 \<mapsto> (json_dumps token_res, None))"
proof -
  define w1 where "w1 = (get_redis_client w)\<lparr>redis_calls := Suc (redis_calls w)\<rparr>"
  define w2 where "w2 = w1\<lparr>http_posts := http_posts w1 @ [exchange_request cfg code]\<rparr>"
  define w3 where "w3 = (get_redis_client w2)
              \<lparr>redis_calls := Suc (redis_calls w2),
               redis_data := (redis_data w2)
                 (''email-token:'' @ format_value lib (dict_get kvs ''userId'')
                    \<mapsto> (json_dumps token_res, None))\<rparr>"
  have ld: "load_oauth_state lib state w = (Inr (JObj kvs), w1)"
    unfolding w1_def by (rule load_present [OF assms(1-4)])
  have cfg1: "get_aurinko_config w1 = Inr cfg"
    using assms(6) by (simp add: w1_def get_aurinko_config_def getenv_def)
  have peer1: "http_peer w1 (exchange_request cfg code) = Response status body"
    using assms(7) by (simp add: w1_def)
  have ex: "exchange_code_for_token lib code w1 = (Inr token_res, w2)"
    unfolding w2_def by (rule exchange_succeeds [OF cfg1 peer1 assms(8-10)])
  have "redis_reached w2 (redis_calls w2)"
    using assms(11) by (simp add: w2_def w1_def)
  then have ps: "persist_token lib (dict_get kvs ''userId'') token_res w2 = (Inr (), w3)"
    unfolding w3_def by (rule persist_reached)
  have "oauth_callback_try lib request code state w =
           (case notify_webhook (dict_get kvs ''userId'') w3 of
              (Inl e, w4) \<Rightarrow> (Inl e, w4)
            | (Inr u, w4) \<Rightarrow> (Inr (RedirectResponse (success_url request w4)), w4))"
    using assms(5) by (simp add: oauth_callback_try_def ld stored_get_userId_def ex ps)
  moreover have "environ w3 = environ w" "http_peer w3 = http_peer w"
    "http_posts w3 = http_posts w @ [exchange_request cfg code]"
    "redis_data w3 = (redis_data w)
              (''email-token:'' @ format_value lib (dict_get kvs ''userId'')
                 \<mapsto> (json_dumps token_res, None))"
    by (simp_all add: w3_def w2_def w1_def)
  ultimately show ?thesis by blast
qed


lemma success_url_env: "environ w' = environ w \<Longrightarrow> success_url request w' = success_url request w"
  by (simp add: success_url_def getenv_default_def)

lemma getenv_env: "environ w' = environ w \<Longrightarrow> getenv w' k = getenv w k"
  by (simp add: getenv_def)

lemma quoted_default_scopes: "quote (join '' '' DEFAULT_SCOPES) = ''Mail.Read%20Mail.Send''"
  by code_simp

lemma config_scopes:
  "get_aurinko_config w = Inr cfg \<Longrightarrow> scopes cfg = DEFAULT_SCOPES"
  by (auto simp add: get_aurinko_config_def split: option.splits if_splits)

lemma save_reached:
  assumes "redis_reached w (redis_calls w)"
  shows "save_oauth_state state payload ttl w =
           (Inr (), (get_redis_client w)
              \<lparr>redis_calls := Suc (redis_calls w),
               redis_data := (redis_data w)
                 (state \<mapsto> (json_dumps payload, Some (redis_clock w + ttl)))\<rparr>)"
  using assms
  by (simp add: save_oauth_state_def save_oauth_state_try_def redis_setex_def Let_def)

lemma save_unreachable:
  assumes "\<not> redis_reached w (redis_calls w)"
  shows "save_oauth_state state payload ttl w =
           (Inl (HTTPException 500 ''Internal error''),
            (get_redis_client w)\<lparr>redis_calls := Suc (redis_calls w)\<rparr>)"
  using assms
  by (simp add: save_oauth_state_def save_oauth_state_try_def redis_setex_def Let_def)

lemma init_base_url_fields [simp]:
  "init_base_url request (get_redis_client w) = init_base_url request w"
  "init_base_url request (w\<lparr>redis_calls := n\<rparr>) = init_base_url request w"
  "init_base_url request (w\<lparr>redis_data := d\<rparr>) = init_base_url request w"
  "init_base_url request (w\<lparr>uuid4_calls := n\<rparr>) = init_base_url request w"
  by (simp_all add: init_base_url_def getenv_default_def)

lemma init_oauth_reached:
  assumes "get_aurinko_config w = Inr cfg"
    and "redis_reached w (redis_calls w)"
  shows "init_oauth request userId w =
           (Inr (RedirectResponse
                   (authorize_url cfg (init_base_url request w) (uuid4_draw w (uuid4_calls w)))),
            (get_redis_client (w\<lparr>uuid4_calls := Suc (uuid4_calls w)\<rparr>))
              \<lparr>redis_calls := Suc (redis_calls w),
               redis_data := (redis_data w)
                 (uuid4_draw w (uuid4_calls w)
                    \<mapsto> (json_dumps (JObj [(''userId'', JStr userId)]),
                        Some (redis_clock w + 600)))\<rparr>)"
proof -
  define w1 where "w1 = w\<lparr>uuid4_calls := Suc (uuid4_calls w)\<rparr>"
  define payload where "payload = JObj [(''userId'', JStr userId)]"
  have r1: "redis_reached w1 (redis_calls w1)"
    using assms(2) by (simp add: w1_def)
  have sv: "save_oauth_state (uuid4_draw w (uuid4_calls w)) payload 600 w1
      = (Inr (), (get_redis_client w1)
              \<lparr>redis_calls := Suc (redis_calls w1),
               redis_data := (redis_data w1)
                 (uuid4_draw w (uuid4_calls w)
                    \<mapsto> (json_dumps payload, Some (redis_clock w1 + 600)))\<rparr>)"
    by (rule save_reached [OF r1])
  have "init_oauth_try request userId w =
          (Inr (RedirectResponse
                   (authorize_url cfg (init_base_url request w) (uuid4_draw w (uuid4_calls w)))),
            (get_redis_client w1)
              \<lparr>redis_calls := Suc (redis_calls w1),
               redis_data := (redis_data w1)
                 (uuid4_draw w (uuid4_calls w)
                    \<mapsto> (json_dumps payload, Some (redis_clock w1 + 600)))\<rparr>)"
    unfolding init_oauth_try_def assms(1) uuid4_str_def payload_def [symmetric]
    by (simp add: w1_def [symmetric] sv) (simp add: w1_def)
  then show ?thesis
    by (simp add: init_oauth_def reraise_or_500_def w1_def payload_def)
qed

lemma userId_payload:
  "json_dumps (JObj [(''userId'', JStr userId)])
     = [CHR ''{'', CHR 0x22] @ ''userId'' @ [CHR 0x22, CHR '':''] @ dumps_str userId @ ''}''"
  by (simp add: dumps_str_def json_escape_char_def)

subsection \<open>The sample data\<close>

lemma sample_config:
  "get_aurinko_config sample_world =
     Inr \<lparr>client_id = ''id'', client_secret = ''secret'', scopes = DEFAULT_SCOPES\<rparr>"
  by (simp add: get_aurinko_config_def getenv_def sample_world_def)

lemma sample_live:
  "redis_live sample_world ''st-live'' = Some (json_dumps sample_state)"
  "redis_live sample_world ''st-old'' = None"
  by (simp_all add: redis_live_def sample_world_def)

lemma sample_state_text: "json_dumps sample_state \<noteq> []"
  by (simp add: sample_state_def)

lemma sample_loads_state:
  "json_loads sample_lib (json_dumps sample_state) = Some (JObj [(''userId'', JStr ''u1'')])"
  by (simp add: sample_lib_def sample_state_def)

lemma sample_peer_bad:
  "http_peer sample_world
     (exchange_request \<lparr>client_id = ''id'', client_secret = ''secret'', scopes = DEFAULT_SCOPES\<rparr> ''bad'')
   = Response 401 []"
  by (simp add: sample_world_def sample_peer_def exchange_request_def)

lemma sample_peer_good:
  "http_peer sample_world
     (exchange_request \<lparr>client_id = ''id'', client_secret = ''secret'', scopes = DEFAULT_SCOPES\<rparr> ''good'')
   = Response 200 (json_dumps sample_token)"
  by (simp add: sample_world_def sample_peer_def exchange_request_def)

subsection \<open>The callback\<close>

text \<open>
  C1. A callback whose \<open>state\<close> the store does not hold, because it was never stored or
  because it has expired, is answered with 400 "Invalid state"; no POST is made, so the
  code is not exchanged, and the store's content is unchanged, so no token record is
  written.
\<close>

theorem callback_unknown_state_rejected:
  assumes "redis_live w state = None"
  shows "fst (oauth_callback lib request code state w) = Inl (HTTPException 400 ''Invalid state'')
       \<and> http_posts (snd (oauth_callback lib request code state w)) = http_posts w
       \<and> redis_data (snd (oauth_callback lib request code state w)) = redis_data w"
  by (simp add: oauth_callback_def oauth_callback_try_def load_absent [OF assms] reraise_or_500_def)

theorem callback_unknown_state_rejected_witness:
  "redis_live sample_world ''st-old'' = None
   \<and> fst (oauth_callback sample_lib sample_request ''good'' ''st-old'' sample_world)
       = Inl (HTTPException 400 ''Invalid state'')
   \<and> http_posts (snd (oauth_callback sample_lib sample_request ''good'' ''st-old'' sample_world))
       = http_posts sample_world
   \<and> redis_data (snd (oauth_callback sample_lib sample_request ''good'' ''st-old'' sample_world))
       = redis_data sample_world"
  using sample_live(2) callback_unknown_state_rejected [OF sample_live(2)] by simp

text \<open>
  C2. A callback with a valid state (the store is reached, the value under \<open>state\<close> parses
  to a dict with a truthy \<open>userId\<close>) whose exchange call fails, by a transport error or
  by a status outside 2xx, is answered with 502 and leaves the store's content as it
  was. The call is made only when the credentials are configured.
\<close>

theorem callback_exchange_failure:
  assumes "redis_reached w (redis_calls w)"
    and "redis_live w state = Some raw" and "raw \<noteq> []"
    and "json_loads lib raw = Some (JObj kvs)"
    and "truthy (dict_get kvs ''userId'')"
    and "get_aurinko_config w = Inr cfg"
    and "http_peer w (exchange_request cfg code) = NoResponse
         \<or> (\<exists>status body. http_peer w (exchange_request cfg code) = Response status body
              \<and> \<not> (200 \<le> status \<and> status < 300))"
  shows "fst (oauth_callback lib request code state w)
           = Inl (HTTPException 502 ''Token exchange with Aurinko failed'')
       \<and> redis_data (snd (oauth_callback lib request code state w)) = redis_data w"
proof -
  define w1 where "w1 = (get_redis_client w)\<lparr>redis_calls := Suc (redis_calls w)\<rparr>"
  have ld: "load_oauth_state lib state w = (Inr (JObj kvs), w1)"
    unfolding w1_def by (rule load_present [OF assms(1-4)])
  have cfg1: "get_aurinko_config w1 = Inr cfg"
    using assms(6) by (simp add: w1_def get_aurinko_config_def getenv_def)
  have peer1: "http_peer w1 (exchange_request cfg code) = NoResponse
         \<or> (\<exists>status body. http_peer w1 (exchange_request cfg code) = Response status body
              \<and> \<not> (200 \<le> status \<and> status < 300))"
    using assms(7) by (simp add: w1_def)
  have ex: "exchange_code_for_token lib code w1 =
           (Inl (HTTPException 502 ''Token exchange with Aurinko failed''),
            w1\<lparr>http_posts := http_posts w1 @ [exchange_request cfg code]\<rparr>)"
    by (rule exchange_fails [OF cfg1 peer1])
  have "oauth_callback_try lib request code state w =
          (Inl (HTTPException 502 ''Token exchange with Aurinko failed''),
            w1\<lparr>http_posts := http_posts w1 @ [exchange_request cfg code]\<rparr>)"
    using assms(5) by (simp add: oauth_callback_try_def ld stored_get_userId_def ex)
  then show ?thesis
    by (simp add: oauth_callback_def reraise_or_500_def w1_def)
qed


theorem callback_exchange_failure_witness:
  "fst (oauth_callback sample_lib sample_request ''bad'' ''st-live'' sample_world)
       = Inl (HTTPException 502 ''Token exchange with Aurinko failed'')
   \<and> redis_data (snd (oauth_callback sample_lib sample_request ''bad'' ''st-live'' sample_world))
       = redis_data sample_world"
proof -
  have r: "redis_reached sample_world (redis_calls sample_world)"
    by (simp add: sample_world_def)
  have t: "truthy (dict_get [(''userId'', JStr ''u1'')] ''userId'')"
    by (simp add: dict_get_def)
  have p: "http_peer sample_world
     (exchange_request \<lparr>client_id = ''id'', client_secret = ''secret'', scopes = DEFAULT_SCOPES\<rparr> ''bad'')
      = NoResponse
    \<or> (\<exists>status body. http_peer sample_world
     (exchange_request \<lparr>client_id = ''id'', client_secret = ''secret'', scopes = DEFAULT_SCOPES\<rparr> ''bad'')
       = Response status body \<and> \<not> (200 \<le> status \<and> status < 300))"
    by (simp add: sample_peer_bad)
  show ?thesis
    by (rule callback_exchange_failure [OF r sample_live(1) sample_state_text sample_loads_state t sample_config p])
qed


text \<open>
  C3, as the code has it. A callback with a valid, unexpired state whose payload holds
  the string \<open>userId\<close>, and a code that the provider accepts (a 2xx response whose body
  parses), changes the store, when the write reaches it, at exactly one key:
  \<open>email-token:userId\<close> now holds the compact JSON text of the provider's response, with
  no expiry, whatever was there before. The response is the redirect to the success
  URL, which is \<open>OAUTH_SUCCESS_URL\<close> when that is set and \<open>request.base_url\<close> followed by
  \<open>auth/success\<close> otherwise, provided no webhook URL is configured or the webhook call
  ends in a response or a transport error.
\<close>

theorem callback_persists_token:
  assumes "redis_reached w (redis_calls w)"
    and "redis_live w state = Some raw" and "raw \<noteq> []"
    and "json_loads lib raw = Some (JObj kvs)"
    and "dict_get kvs ''userId'' = JStr userId" and "userId \<noteq> []"
    and "get_aurinko_config w = Inr cfg"
    and "http_peer w (exchange_request cfg code) = Response status body"
    and "200 \<le> status" and "status < 300"
    and "json_loads lib body = Some token_res"
    and "redis_reached w (Suc (redis_calls w))"
  shows "redis_data (snd (oauth_callback lib request code state w))
           = (redis_data w)(''email-token:'' @ userId \<mapsto> (json_dumps token_res, None))
       \<and> (not_set (getenv w ''WEBHOOK_URL'')
            \<or> http_peer w (webhook_request (the (getenv w ''WEBHOOK_URL'')) (JStr userId)) \<noteq> BadURL
          \<longrightarrow> fst (oauth_callback lib request code state w)
                = Inr (RedirectResponse
                         (case environ w ''OAUTH_SUCCESS_URL'' of
                            None \<Rightarrow> base_url request @ ''auth/success''
                          | Some url \<Rightarrow> url)))"
proof -
  have tr: "truthy (dict_get kvs ''userId'')"
    using assms(5,6) by simp
  obtain w3 where
    run: "oauth_callback_try lib request code state w =
           (case notify_webhook (JStr userId) w3 of
              (Inl e, w4) \<Rightarrow> (Inl e, w4)
            | (Inr u, w4) \<Rightarrow> (Inr (RedirectResponse (success_url request w4)), w4))"
    and env: "environ w3 = environ w"
    and peer: "http_peer w3 = http_peer w"
    and data: "redis_data w3 = (redis_data w)
                 (''email-token:'' @ userId \<mapsto> (json_dumps token_res, None))"
    using callback_to_notify [OF assms(1-4) tr assms(7-12), of request]
    by (auto simp add: assms(5) format_value_def)
  obtain r w4 where n: "notify_webhook (JStr userId) w3 = (r, w4)"
    by (cases "notify_webhook (JStr userId) w3")
  have "redis_data w4 = redis_data w3"
    using notify_webhook_keeps(1) [of "JStr userId" w3] by (simp add: n)
  then have keep: "redis_data (snd (oauth_callback lib request code state w)) = redis_data w3"
    by (cases r) (simp_all add: oauth_callback_def run reraise_or_500_def n)
  have redirect: "fst (oauth_callback lib request code state w)
                = Inr (RedirectResponse (success_url request w))"
    if ok: "not_set (getenv w ''WEBHOOK_URL'')
            \<or> http_peer w (webhook_request (the (getenv w ''WEBHOOK_URL'')) (JStr userId)) \<noteq> BadURL"
  proof (cases "not_set (getenv w ''WEBHOOK_URL'')")
    case True
    then have "not_set (getenv w3 ''WEBHOOK_URL'')"
      by (simp add: getenv_env [OF env])
    then show ?thesis
      by (simp add: oauth_callback_def run reraise_or_500_def notify_webhook_unset
          success_url_env [OF env])
  next
    case False
    then have a: "\<not> not_set (getenv w3 ''WEBHOOK_URL'')"
      by (simp add: getenv_env [OF env])
    have b: "http_peer w3 (webhook_request (the (getenv w3 ''WEBHOOK_URL'')) (JStr userId)) \<noteq> BadURL"
      using ok False by (simp add: getenv_env [OF env] peer)
    show ?thesis
      by (simp add: oauth_callback_def run reraise_or_500_def notify_webhook_swallows [OF a b]
          success_url_def getenv_default_def env)
  qed
  show ?thesis
    using keep data redirect by (simp add: success_url_def getenv_default_def)
qed



lemma sample_reached:
  "redis_reached sample_world n"
  "redis_calls sample_world = 0"
  by (simp_all add: sample_world_def)

lemma sample_loads_token:
  "json_loads sample_lib (json_dumps sample_token) = Some sample_token"
  by (simp add: sample_lib_def sample_state_def sample_token_def dumps_str_def json_escape_char_def)

lemma sample_webhook_unset: "not_set (getenv sample_world ''WEBHOOK_URL'')"
  by (simp add: getenv_def sample_world_def)

lemma sample_success_url:
  "success_url sample_request sample_world = ''http://10.0.0.5:8000/auth/success''"
  by (simp add: success_url_def getenv_default_def sample_world_def sample_request_def)

theorem callback_persists_token_witness:
  "redis_data (snd (oauth_callback sample_lib sample_request ''good'' ''st-live'' sample_world))
     = (redis_data sample_world)(''email-token:u1'' \<mapsto> (json_dumps sample_token, None))
   \<and> fst (oauth_callback sample_lib sample_request ''good'' ''st-live'' sample_world)
       = Inr (RedirectResponse ''http://10.0.0.5:8000/auth/success'')"
proof -
  have r: "redis_reached sample_world (redis_calls sample_world)"
    and r': "redis_reached sample_world (Suc (redis_calls sample_world))"
    by (rule sample_reached)+
  have u: "dict_get [(''userId'', JStr ''u1'')] ''userId'' = JStr ''u1''"
    by (simp add: dict_get_def)
  have ne: "''u1'' \<noteq> []" by simp
  have s: "(200::nat) \<le> 200" "(200::nat) < 300" by simp_all
  show ?thesis
    using callback_persists_token [OF r sample_live(1) sample_state_text sample_loads_state u ne
        sample_config sample_peer_good s sample_loads_token r', of sample_request]
      sample_webhook_unset
    by (simp add: sample_success_url [unfolded success_url_def getenv_default_def])
qed


lemma callback_completes:
  assumes "redis_reached w (redis_calls w)"
    and "redis_live w state = Some raw" and "raw \<noteq> []"
    and "json_loads lib raw = Some (JObj kvs)"
    and "truthy (dict_get kvs ''userId'')"
    and "get_aurinko_config w = Inr cfg"
    and "http_peer w (exchange_request cfg code) = Response status body"
    and "200 \<le> status" and "status < 300"
    and "json_loads lib body = Some token_res"
    and "redis_reached w (Suc (redis_calls w))"
    and "not_set (getenv w ''WEBHOOK_URL'')
         \<or> http_peer w (webhook_request (the (getenv w ''WEBHOOK_URL'')) (dict_get kvs ''userId''))
             \<noteq> BadURL"
  shows "fst (oauth_callback lib request code state w)
           = Inr (RedirectResponse (success_url request w))
       \<and> http_posts (snd (oauth_callback lib request code state w))
           = http_posts w @ exchange_request cfg code #
               (if not_set (getenv w ''WEBHOOK_URL'') then []
                else [webhook_request (the (getenv w ''WEBHOOK_URL'')) (dict_get kvs ''userId'')])"
proof -
  obtain w3 where
    run: "oauth_callback_try lib request code state w =
           (case notify_webhook (dict_get kvs ''userId'') w3 of
              (Inl e, w4) \<Rightarrow> (Inl e, w4)
            | (Inr u, w4) \<Rightarrow> (Inr (RedirectResponse (success_url request w4)), w4))"
    and env: "environ w3 = environ w"
    and peer: "http_peer w3 = http_peer w"
    and posts: "http_posts w3 = http_posts w @ [exchange_request cfg code]"
    using callback_to_notify [OF assms(1-11), of request] by blast
  show ?thesis
  proof (cases "not_set (getenv w ''WEBHOOK_URL'')")
    case True
    then have "not_set (getenv w3 ''WEBHOOK_URL'')"
      by (simp add: getenv_env [OF env])
    then have n: "notify_webhook (dict_get kvs ''userId'') w3 = (Inr (), w3)"
      by (rule notify_webhook_unset)
    show ?thesis
      using True
      by (simp add: oauth_callback_def run reraise_or_500_def n posts success_url_env [OF env])
  next
    case False
    then have a: "\<not> not_set (getenv w3 ''WEBHOOK_URL'')"
      by (simp add: getenv_env [OF env])
    have b: "http_peer w3 (webhook_request (the (getenv w3 ''WEBHOOK_URL'')) (dict_get kvs ''userId''))
               \<noteq> BadURL"
      using assms(12) False by (simp add: getenv_env [OF env] peer)
    note n = notify_webhook_swallows [OF a b]
    show ?thesis
      using False
      by (simp add: oauth_callback_def run reraise_or_500_def n posts getenv_env [OF env]
          success_url_def getenv_default_def env)
  qed
qed

text \<open>
  C7, as the code has it. Once the token is persisted, the webhook does not change the
  response in these cases: with no webhook URL (unset or empty) no call is made; with
  one, the POST is made, and whether the peer answers, with any status at all, or is
  not reached, the callback returns the redirect to the success URL (\<open>OAUTH_SUCCESS_URL\<close>
  when set, \<open>request.base_url\<close> followed by \<open>auth/success\<close> otherwise). The list of POST
  calls shows which of the two happened.
\<close>

theorem webhook_never_affects_callback:
  assumes "redis_reached w (redis_calls w)"
    and "redis_live w state = Some raw" and "raw \<noteq> []"
    and "json_loads lib raw = Some (JObj kvs)"
    and "truthy (dict_get kvs ''userId'')"
    and "get_aurinko_config w = Inr cfg"
    and "http_peer w (exchange_request cfg code) = Response status body"
    and "200 \<le> status" and "status < 300"
    and "json_loads lib body = Some token_res"
    and "redis_reached w (Suc (redis_calls w))"
    and "not_set (getenv w ''WEBHOOK_URL'')
         \<or> http_peer w (webhook_request (the (getenv w ''WEBHOOK_URL'')) (dict_get kvs ''userId''))
             = NoResponse
         \<or> (\<exists>hook_status hook_body.
               http_peer w (webhook_request (the (getenv w ''WEBHOOK_URL'')) (dict_get kvs ''userId''))
                 = Response hook_status hook_body)"
  shows "fst (oauth_callback lib request code state w)
           = Inr (RedirectResponse
                    (case environ w ''OAUTH_SUCCESS_URL'' of
                       None \<Rightarrow> base_url request @ ''auth/success''
                     | Some url \<Rightarrow> url))
       \<and> http_posts (snd (oauth_callback lib request code state w))
           = http_posts w @ exchange_request cfg code #
               (if not_set (getenv w ''WEBHOOK_URL'') then []
                else [webhook_request (the (getenv w ''WEBHOOK_URL'')) (dict_get kvs ''userId'')])"
proof -
  have ok: "not_set (getenv w ''WEBHOOK_URL'')
         \<or> http_peer w (webhook_request (the (getenv w ''WEBHOOK_URL'')) (dict_get kvs ''userId''))
             \<noteq> BadURL"
    using assms(12) by auto
  show ?thesis
    using callback_completes [OF assms(1-11) ok]
    by (simp add: success_url_def getenv_default_def)
qed


lemma sample_hook_facts:
  "redis_reached sample_world_hook n"
  "redis_calls sample_world_hook = 0"
  "redis_live sample_world_hook ''st-live'' = Some (json_dumps sample_state)"
  "get_aurinko_config sample_world_hook =
     Inr \<lparr>client_id = ''id'', client_secret = ''secret'', scopes = DEFAULT_SCOPES\<rparr>"
  "http_peer sample_world_hook = sample_peer"
  "getenv sample_world_hook ''WEBHOOK_URL'' = Some ''https://hooks.example.com/connected''"
  "success_url sample_request sample_world_hook = ''http://10.0.0.5:8000/auth/success''"
  by (simp_all add: sample_world_hook_def sample_world_def redis_live_def
      get_aurinko_config_def getenv_def success_url_def getenv_default_def sample_request_def)

lemma sample_peer_hook:
  "sample_peer (webhook_request ''https://hooks.example.com/connected'' v) = Response 503 []"
  by (simp add: sample_peer_def webhook_request_def)

lemma sample_peer_good':
  "sample_peer
     (exchange_request \<lparr>client_id = ''id'', client_secret = ''secret'', scopes = DEFAULT_SCOPES\<rparr> ''good'')
   = Response 200 (json_dumps sample_token)"
  by (simp add: sample_peer_def exchange_request_def)

theorem webhook_never_affects_callback_witness:
  "http_peer sample_world_hook
     (webhook_request (the (getenv sample_world_hook ''WEBHOOK_URL'')) (JStr ''u1''))
     = Response 503 []
   \<and> fst (oauth_callback sample_lib sample_request ''good'' ''st-live'' sample_world_hook)
       = Inr (RedirectResponse ''http://10.0.0.5:8000/auth/success'')
   \<and> not_set (getenv sample_world ''WEBHOOK_URL'')
   \<and> fst (oauth_callback sample_lib sample_request ''good'' ''st-live'' sample_world)
       = Inr (RedirectResponse ''http://10.0.0.5:8000/auth/success'')"
proof -
  have u: "dict_get [(''userId'', JStr ''u1'')] ''userId'' = JStr ''u1''"
    by (simp add: dict_get_def)
  have t: "truthy (dict_get [(''userId'', JStr ''u1'')] ''userId'')"
    by (simp add: u)
  have s: "(200::nat) \<le> 200" "(200::nat) < 300" by simp_all
  have r: "redis_reached sample_world_hook (redis_calls sample_world_hook)"
    and r': "redis_reached sample_world_hook (Suc (redis_calls sample_world_hook))"
    by (rule sample_hook_facts(1))+
  have p: "http_peer sample_world_hook
     (exchange_request \<lparr>client_id = ''id'', client_secret = ''secret'', scopes = DEFAULT_SCOPES\<rparr> ''good'')
     = Response 200 (json_dumps sample_token)"
    by (simp add: sample_hook_facts(5) sample_peer_good')
  have h: "http_peer sample_world_hook
     (webhook_request (the (getenv sample_world_hook ''WEBHOOK_URL'')) (JStr ''u1''))
     = Response 503 []"
    by (simp add: sample_hook_facts(5,6) sample_peer_hook)
  have hyp: "not_set (getenv sample_world_hook ''WEBHOOK_URL'')
         \<or> http_peer sample_world_hook (webhook_request (the (getenv sample_world_hook ''WEBHOOK_URL''))
               (dict_get [(''userId'', JStr ''u1'')] ''userId'')) = NoResponse
         \<or> (\<exists>hook_status hook_body.
               http_peer sample_world_hook (webhook_request (the (getenv sample_world_hook ''WEBHOOK_URL''))
                 (dict_get [(''userId'', JStr ''u1'')] ''userId'')) = Response hook_status hook_body)"
    using h by (simp add: u)
  have q: "redis_reached sample_world (redis_calls sample_world)"
    and q': "redis_reached sample_world (Suc (redis_calls sample_world))"
    by (rule sample_reached(1))+
  have hyp': "not_set (getenv sample_world ''WEBHOOK_URL'')
         \<or> http_peer sample_world (webhook_request (the (getenv sample_world ''WEBHOOK_URL''))
               (dict_get [(''userId'', JStr ''u1'')] ''userId'')) = NoResponse
         \<or> (\<exists>hook_status hook_body.
               http_peer sample_world (webhook_request (the (getenv sample_world ''WEBHOOK_URL''))
                 (dict_get [(''userId'', JStr ''u1'')] ''userId'')) = Response hook_status hook_body)"
    using sample_webhook_unset by simp
  show ?thesis
    using h sample_webhook_unset
      webhook_never_affects_callback [OF r sample_hook_facts(3) sample_state_text
        sample_loads_state t sample_hook_facts(4) p s sample_loads_token r' hyp, of sample_request]
      webhook_never_affects_callback [OF q sample_live(1) sample_state_text
        sample_loads_state t sample_config sample_peer_good s sample_loads_token q' hyp',
        of sample_request]
    by (simp add: sample_hook_facts(7) [unfolded success_url_def getenv_default_def]
        sample_success_url [unfolded success_url_def getenv_default_def])
qed

subsection \<open>A webhook URL that httpx refuses\<close>

text \<open>
  \<open>notify_webhook\<close> catches \<open>httpx.HTTPError\<close> only; \<open>httpx.InvalidURL\<close> is not one, so it
  reaches the handler's last \<open>except\<close> clause.
\<close>

lemma notify_webhook_refused:
  assumes "\<not> not_set (getenv w ''WEBHOOK_URL'')"
    and "http_peer w (webhook_request (the (getenv w ''WEBHOOK_URL'')) user_id) = BadURL"
  shows "notify_webhook user_id w = (Inl InvalidURL, w)"
  using assms
  by (simp add: notify_webhook_def notify_webhook_try_def httpx_post_def Let_def)

lemma callback_webhook_refused:
  assumes "redis_reached w (redis_calls w)"
    and "redis_live w state = Some raw" and "raw \<noteq> []"
    and "json_loads lib raw = Some (JObj kvs)"
    and "truthy (dict_get kvs ''userId'')"
    and "get_aurinko_config w = Inr cfg"
    and "http_peer w (exchange_request cfg code) = Response status body"
    and "200 \<le> status" and "status < 300"
    and "json_loads lib body = Some token_res"
    and "redis_reached w (Suc (redis_calls w))"
    and "\<not> not_set (getenv w ''WEBHOOK_URL'')"
    and "http_peer w (webhook_request (the (getenv w ''WEBHOOK_URL'')) (dict_get kvs ''userId''))
           = BadURL"
  shows "fst (oauth_callback lib request code state w)
           = Inl (HTTPException 500 ''Internal server error'')
       \<and> redis_data (snd (oauth_callback lib request code state w))
           = (redis_data w)
               (''email-token:'' @ format_value lib (dict_get kvs ''userId'')
                  \<mapsto> (json_dumps token_res, None))"
proof -
  obtain w3 where
    run: "oauth_callback_try lib request code state w =
           (case notify_webhook (dict_get kvs ''userId'') w3 of
              (Inl e, w4) \<Rightarrow> (Inl e, w4)
            | (Inr u, w4) \<Rightarrow> (Inr (RedirectResponse (success_url request w4)), w4))"
    and env: "environ w3 = environ w"
    and peer: "http_peer w3 = http_peer w"
    and data: "redis_data w3 = (redis_data w)
                 (''email-token:'' @ format_value lib (dict_get kvs ''userId'')
                    \<mapsto> (json_dumps token_res, None))"
    using callback_to_notify [OF assms(1-11), of request] by blast
  have a: "\<not> not_set (getenv w3 ''WEBHOOK_URL'')"
    using assms(12) by (simp add: getenv_env [OF env])
  have b: "http_peer w3 (webhook_request (the (getenv w3 ''WEBHOOK_URL'')) (dict_get kvs ''userId''))
             = BadURL"
    using assms(13) by (simp add: getenv_env [OF env] peer)
  show ?thesis
    by (simp add: oauth_callback_def run reraise_or_500_def notify_webhook_refused [OF a b] data)
qed

lemma sample_badhook_facts:
  "redis_reached sample_world_badhook n"
  "redis_calls sample_world_badhook = 0"
  "redis_live sample_world_badhook ''st-live'' = Some (json_dumps sample_state)"
  "get_aurinko_config sample_world_badhook =
     Inr \<lparr>client_id = ''id'', client_secret = ''secret'', scopes = DEFAULT_SCOPES\<rparr>"
  "http_peer sample_world_badhook = sample_peer"
  "getenv sample_world_badhook ''WEBHOOK_URL'' = Some ''https://hooks.example.com:port/connected''"
  by (simp_all add: sample_world_badhook_def sample_world_def redis_live_def
      get_aurinko_config_def getenv_def)

lemma sample_peer_badhook:
  "sample_peer (webhook_request ''https://hooks.example.com:port/connected'' v) = BadURL"
  by (simp add: sample_peer_def webhook_request_def)

lemma sample_callback_badhook:
  "fst (oauth_callback sample_lib sample_request ''good'' ''st-live'' sample_world_badhook)
     = Inl (HTTPException 500 ''Internal server error'')
   \<and> redis_data (snd (oauth_callback sample_lib sample_request ''good'' ''st-live''
                         sample_world_badhook))
       = (redis_data sample_world_badhook)
           (''email-token:u1'' \<mapsto> (json_dumps sample_token, None))"
proof -
  have u: "dict_get [(''userId'', JStr ''u1'')] ''userId'' = JStr ''u1''"
    by (simp add: dict_get_def)
  have t: "truthy (dict_get [(''userId'', JStr ''u1'')] ''userId'')"
    by (simp add: u)
  have s: "(200::nat) \<le> 200" "(200::nat) < 300" by simp_all
  have r: "redis_reached sample_world_badhook (redis_calls sample_world_badhook)"
    and r': "redis_reached sample_world_badhook (Suc (redis_calls sample_world_badhook))"
    by (rule sample_badhook_facts(1))+
  have p: "http_peer sample_world_badhook
     (exchange_request \<lparr>client_id = ''id'', client_secret = ''secret'', scopes = DEFAULT_SCOPES\<rparr> ''good'')
     = Response 200 (json_dumps sample_token)"
    by (simp add: sample_badhook_facts(5) sample_peer_good')
  have set: "\<not> not_set (getenv sample_world_badhook ''WEBHOOK_URL'')"
    by (simp add: sample_badhook_facts(6))
  have bad: "http_peer sample_world_badhook
     (webhook_request (the (getenv sample_world_badhook ''WEBHOOK_URL''))
        (dict_get [(''userId'', JStr ''u1'')] ''userId'')) = BadURL"
    by (simp add: sample_badhook_facts(5,6) sample_peer_badhook)
  show ?thesis
    using callback_webhook_refused [OF r sample_badhook_facts(3) sample_state_text
        sample_loads_state t sample_badhook_facts(4) p s sample_loads_token r' set bad,
        of sample_request]
    by (simp add: u format_value_def)
qed

text \<open>
  C3 reads: every callback with a valid state and an accepted code persists the token
  and answers with the redirect to the success URL. With a webhook URL that httpx
  refuses, the token is persisted and the answer is 500.
\<close>

theorem callback_persists_token_counterexample:
  "getenv sample_world_badhook ''WEBHOOK_URL'' = Some ''https://hooks.example.com:port/connected''
   \<and> redis_data (snd (oauth_callback sample_lib sample_request ''good'' ''st-live''
                         sample_world_badhook)) ''email-token:u1''
       = Some (json_dumps sample_token, None)
   \<and> fst (oauth_callback sample_lib sample_request ''good'' ''st-live'' sample_world_badhook)
       = Inl (HTTPException 500 ''Internal server error'')"
  by (simp add: sample_callback_badhook sample_badhook_facts(6))

lemma sample_callback_no_hook:
  "fst (oauth_callback sample_lib sample_request ''good'' ''st-live'' sample_world)
     = Inr (RedirectResponse ''http://10.0.0.5:8000/auth/success'')"
proof -
  have t: "truthy (dict_get [(''userId'', JStr ''u1'')] ''userId'')"
    by (simp add: dict_get_def)
  have s: "(200::nat) \<le> 200" "(200::nat) < 300" by simp_all
  have q: "redis_reached sample_world (redis_calls sample_world)"
    and q': "redis_reached sample_world (Suc (redis_calls sample_world))"
    by (rule sample_reached(1))+
  have hook: "not_set (getenv sample_world ''WEBHOOK_URL'')
         \<or> http_peer sample_world (webhook_request (the (getenv sample_world ''WEBHOOK_URL''))
               (dict_get [(''userId'', JStr ''u1'')] ''userId'')) \<noteq> BadURL"
    using sample_webhook_unset by simp
  show ?thesis
    using callback_completes [OF q sample_live(1) sample_state_text sample_loads_state t
        sample_config sample_peer_good s sample_loads_token q' hook, of sample_request]
    by (simp add: sample_success_url)
qed

text \<open>
  C7 reads: the webhook call never affects the response. Two worlds that differ in
  \<open>WEBHOOK_URL\<close> only: with none the callback redirects, with one that httpx refuses it
  answers 500.
\<close>

theorem webhook_never_affects_callback_counterexample:
  "sample_world_badhook
     = sample_world\<lparr>environ := (environ sample_world)
                     (''WEBHOOK_URL'' \<mapsto> ''https://hooks.example.com:port/connected'')\<rparr>
   \<and> fst (oauth_callback sample_lib sample_request ''good'' ''st-live'' sample_world)
       = Inr (RedirectResponse ''http://10.0.0.5:8000/auth/success'')
   \<and> fst (oauth_callback sample_lib sample_request ''good'' ''st-live'' sample_world_badhook)
       = Inl (HTTPException 500 ''Internal server error'')"
proof -
  have "sample_world_badhook
     = sample_world\<lparr>environ := (environ sample_world)
                     (''WEBHOOK_URL'' \<mapsto> ''https://hooks.example.com:port/connected'')\<rparr>"
    by (rule sample_world_badhook_def)
  then show ?thesis
    using sample_callback_no_hook sample_callback_badhook by blast
qed


subsection \<open>The relay\<close>











subsection \<open>Init\<close>

text \<open>
  C5. With the credentials configured and the store reached, init stores under the
  freshly drawn state token the compact JSON text \<open>{"userId":"..."}\<close> of the given
  userId, to expire 600 seconds later (it is live before that and gone from then on),
  and answers with a redirect to the authorize URL whose query carries, in this order,
  clientId, serviceType=Google, the percent-encoded space-joined scopes,
  responseType=code, the percent-encoded return URL and that same state token.
\<close>

theorem init_stores_state_and_redirects:
  assumes "get_aurinko_config w = Inr cfg"
    and "redis_reached w (redis_calls w)"
  shows "fst (init_oauth request userId w) =
           Inr (RedirectResponse
                  (''https://api.aurinko.io/v1/auth/authorize''
                   @ ''?clientId='' @ client_id cfg
                   @ ''&serviceType=Google''
                   @ ''&scopes=Mail.Read%20Mail.Send''
                   @ ''&responseType=code''
                   @ ''&returnUrl='' @ quote (init_base_url request w @ ''/auth/callback'')
                   @ ''&state='' @ uuid4_draw w (uuid4_calls w)))
       \<and> redis_data (snd (init_oauth request userId w))
           = (redis_data w)
               (uuid4_draw w (uuid4_calls w)
                  \<mapsto> ([CHR ''{'', CHR 0x22] @ ''userId'' @ [CHR 0x22, CHR '':'']
                        @ dumps_str userId @ ''}'',
                      Some (redis_clock w + 600)))
       \<and> (\<forall>t. redis_live ((snd (init_oauth request userId w))\<lparr>redis_clock := t\<rparr>)
                  (uuid4_draw w (uuid4_calls w))
                = (if t < redis_clock w + 600
                   then Some (json_dumps (JObj [(''userId'', JStr userId)])) else None))"
proof -
  have url: "authorize_url cfg (init_base_url request w) (uuid4_draw w (uuid4_calls w))
      = ''https://api.aurinko.io/v1/auth/authorize''
                   @ ''?clientId='' @ client_id cfg
                   @ ''&serviceType=Google''
                   @ ''&scopes=Mail.Read%20Mail.Send''
                   @ ''&responseType=code''
                   @ ''&returnUrl='' @ quote (init_base_url request w @ ''/auth/callback'')
                   @ ''&state='' @ uuid4_draw w (uuid4_calls w)"
    by (simp add: authorize_url_def Let_def config_scopes [OF assms(1)] quoted_default_scopes)
  show ?thesis
    unfolding init_oauth_reached [OF assms] url userId_payload [symmetric]
    by (simp add: redis_live_def)
qed


lemma sample_init_base: "init_base_url sample_request sample_world = ''https://app.example.com''"
  by (simp add: init_base_url_def getenv_default_def sample_request_def sample_world_def)

lemma quoted_sample_return:
  "quote (''https://app.example.com'' @ ''/auth/callback'') = ''https%3A//app.example.com/auth/callback''"
  by code_simp

lemma sample_uuid:
  "uuid4_draw sample_world (uuid4_calls sample_world) = ''3f2b8c1e-5d4a-4e6f-9a7b-0c1d2e3f4a5b''"
  "redis_clock sample_world = 100"
  by (simp_all add: sample_world_def)

lemma dumps_str_u1: "dumps_str ''u1'' = [CHR 0x22, CHR ''u'', CHR ''1'', CHR 0x22]"
  by (simp add: dumps_str_def json_escape_char_def)

theorem init_stores_state_and_redirects_witness:
  "fst (init_oauth sample_request ''u1'' sample_world) =
     Inr (RedirectResponse
       (''https://api.aurinko.io/v1/auth/authorize?clientId=id&serviceType=Google''
        @ ''&scopes=Mail.Read%20Mail.Send&responseType=code''
        @ ''&returnUrl=https%3A//app.example.com/auth/callback''
        @ ''&state=3f2b8c1e-5d4a-4e6f-9a7b-0c1d2e3f4a5b''))
   \<and> redis_data (snd (init_oauth sample_request ''u1'' sample_world))
        ''3f2b8c1e-5d4a-4e6f-9a7b-0c1d2e3f4a5b''
       = Some ([CHR ''{'', CHR 0x22] @ ''userId'' @ [CHR 0x22, CHR '':'', CHR 0x22]
               @ ''u1'' @ [CHR 0x22, CHR ''}''], Some 700)"
  using init_stores_state_and_redirects [OF sample_config sample_reached(1), of sample_request "''u1''"]
  by (simp add: sample_init_base quoted_sample_return [simplified] sample_uuid dumps_str_u1)

subsection \<open>The store out of reach\<close>

lemma sample_down_unreached:
  "\<not> redis_reached sample_world_down (redis_calls sample_world_down)"
  by (simp add: sample_world_down_def)

text \<open>
  C6 reads: when the store cannot be reached while the state is loaded, the client gets
  a 500-equivalent error, distinct from the 400 of an absent state. On a store that is
  out of reach, \<open>load_oauth_state\<close> and the callback answer 400 "Invalid state".
\<close>

theorem load_store_unreachable_counterexample:
  "\<not> redis_reached sample_world_down (redis_calls sample_world_down)
   \<and> fst (load_oauth_state sample_lib ''st-live'' sample_world_down)
       = Inl (HTTPException 400 ''Invalid state'')
   \<and> fst (oauth_callback sample_lib sample_request ''good'' ''st-live'' sample_world_down)
       = Inl (HTTPException 400 ''Invalid state'')"
  by (simp add: sample_down_unreached load_unreachable [OF sample_down_unreached]
      oauth_callback_def oauth_callback_try_def reraise_or_500_def)

text \<open>
  C6, as the code has it. The redis error is raised inside the \<open>try\<close> block of
  \<open>load_oauth_state\<close>, whose last clause catches every exception: the client gets 400
  "Invalid state", the answer for an absent or expired state, and the callback stops
  there, with no exchange call and no write.
\<close>

theorem load_store_unreachable_is_400:
  assumes "\<not> redis_reached w (redis_calls w)"
  shows "fst (load_oauth_state lib state w) = Inl (HTTPException 400 ''Invalid state'')
       \<and> fst (oauth_callback lib request code state w) = Inl (HTTPException 400 ''Invalid state'')
       \<and> http_posts (snd (oauth_callback lib request code state w)) = http_posts w
       \<and> redis_data (snd (oauth_callback lib request code state w)) = redis_data w"
  by (simp add: load_unreachable [OF assms] oauth_callback_def oauth_callback_try_def
      reraise_or_500_def)

theorem load_store_unreachable_is_400_witness:
  "\<not> redis_reached sample_world_down (redis_calls sample_world_down)
   \<and> fst (oauth_callback sample_lib sample_request ''good'' ''st-live'' sample_world_down)
       = Inl (HTTPException 400 ''Invalid state'')
   \<and> redis_data (snd (oauth_callback sample_lib sample_request ''good'' ''st-live'' sample_world_down))
       = redis_data sample_world_down"
  using sample_down_unreached load_store_unreachable_is_400 [OF sample_down_unreached]
  by simp

subsection \<open>Init and the empty userId\<close>

lemma init_oauth_misconfigured:
  assumes "get_aurinko_config w = Inl e"
  shows "init_oauth request userId w = (Inl e, w)"
proof -
  have "is_HTTPException e"
    using assms by (auto simp add: get_aurinko_config_def split: option.splits if_splits)
  then show ?thesis
    by (simp add: init_oauth_def init_oauth_try_def assms reraise_or_500_def)
qed

lemma init_oauth_unreachable:
  assumes "get_aurinko_config w = Inr cfg"
    and "\<not> redis_reached w (redis_calls w)"
  shows "fst (init_oauth request userId w) = Inl (HTTPException 500 ''Internal error'')"
proof -
  define w1 where "w1 = w\<lparr>uuid4_calls := Suc (uuid4_calls w)\<rparr>"
  have "\<not> redis_reached w1 (redis_calls w1)"
    using assms(2) by (simp add: w1_def)
  note sv = save_unreachable [OF this]
  show ?thesis
    unfolding init_oauth_def init_oauth_try_def assms(1) uuid4_str_def
    by (simp add: w1_def [symmetric] sv reraise_or_500_def)
qed

text \<open>
  C9 reads: an init request whose userId is empty is rejected. With the sample
  credentials and store, init with the empty userId stores a state and redirects.
\<close>

theorem init_accepts_empty_userId_counterexample:
  "fst (init_oauth sample_request [] sample_world) =
     Inr (RedirectResponse
       (''https://api.aurinko.io/v1/auth/authorize?clientId=id&serviceType=Google''
        @ ''&scopes=Mail.Read%20Mail.Send&responseType=code''
        @ ''&returnUrl=https%3A//app.example.com/auth/callback''
        @ ''&state=3f2b8c1e-5d4a-4e6f-9a7b-0c1d2e3f4a5b''))
   \<and> redis_data (snd (init_oauth sample_request [] sample_world))
        ''3f2b8c1e-5d4a-4e6f-9a7b-0c1d2e3f4a5b''
       = Some ([CHR ''{'', CHR 0x22] @ ''userId'' @ [CHR 0x22, CHR '':'', CHR 0x22, CHR 0x22, CHR ''}''],
               Some 700)"
  by (simp add: init_oauth_reached [OF sample_config sample_reached(1)] authorize_url_def
      quoted_default_scopes sample_init_base quoted_sample_return [simplified] sample_uuid
      dumps_str_def json_escape_char_def)

text \<open>
  C9, as the code has it. Init never looks at the userId: the response for the empty
  userId is the response for any other one, and when the credentials are configured
  and the store is reached, the state token is stored with the payload
  \<open>{"userId":""}\<close> and the redirect to the authorize URL is returned.
\<close>

theorem init_accepts_empty_userId:
  "fst (init_oauth request [] w) = fst (init_oauth request userId w)
   \<and> (get_aurinko_config w = Inr cfg \<and> redis_reached w (redis_calls w) \<longrightarrow>
        fst (init_oauth request [] w)
          = Inr (RedirectResponse
                   (authorize_url cfg (init_base_url request w) (uuid4_draw w (uuid4_calls w))))
        \<and> redis_data (snd (init_oauth request [] w))
            = (redis_data w)
                (uuid4_draw w (uuid4_calls w)
                   \<mapsto> ([CHR ''{'', CHR 0x22] @ ''userId''
                         @ [CHR 0x22, CHR '':'', CHR 0x22, CHR 0x22, CHR ''}''],
                       Some (redis_clock w + 600))))"
proof -
  have same: "fst (init_oauth request [] w) = fst (init_oauth request userId w)"
  proof (cases "get_aurinko_config w")
    case (Inl e)
    then show ?thesis by (simp add: init_oauth_misconfigured)
  next
    case (Inr c)
    show ?thesis
    proof (cases "redis_reached w (redis_calls w)")
      case True
      show ?thesis by (simp add: init_oauth_reached [OF Inr True])
    next
      case False
      show ?thesis by (simp add: init_oauth_unreachable [OF Inr False])
    qed
  qed
  have stored: "fst (init_oauth request [] w)
          = Inr (RedirectResponse
                   (authorize_url cfg (init_base_url request w) (uuid4_draw w (uuid4_calls w))))
        \<and> redis_data (snd (init_oauth request [] w))
            = (redis_data w)
                (uuid4_draw w (uuid4_calls w)
                   \<mapsto> ([CHR ''{'', CHR 0x22] @ ''userId''
                         @ [CHR 0x22, CHR '':'', CHR 0x22, CHR 0x22, CHR ''}''],
                       Some (redis_clock w + 600)))"
    if "get_aurinko_config w = Inr cfg" "redis_reached w (redis_calls w)"
    by (simp add: init_oauth_reached [OF that] dumps_str_def json_escape_char_def)
  show ?thesis
    using same stored by blast
qed

theorem init_accepts_empty_userId_witness:
  "get_aurinko_config sample_world
     = Inr \<lparr>client_id = ''id'', client_secret = ''secret'', scopes = DEFAULT_SCOPES\<rparr>
   \<and> redis_reached sample_world (redis_calls sample_world)
   \<and> fst (init_oauth sample_request [] sample_world)
       = fst (init_oauth sample_request ''u1'' sample_world)
   \<and> redis_data (snd (init_oauth sample_request [] sample_world))
        ''3f2b8c1e-5d4a-4e6f-9a7b-0c1d2e3f4a5b''
       = Some ([CHR ''{'', CHR 0x22] @ ''userId'' @ [CHR 0x22, CHR '':'', CHR 0x22, CHR 0x22, CHR ''}''],
               Some 700)"
  using sample_config sample_reached(1) [of "redis_calls sample_world"]
    init_accepts_empty_userId [of sample_request sample_world "''u1''"
      "\<lparr>client_id = ''id'', client_secret = ''secret'', scopes = DEFAULT_SCOPES\<rparr>"]
  by (simp add: sample_uuid)


subsection \<open>The two base URLs\<close>

lemma redis_live_environ [simp]: "redis_live (w\<lparr>environ := e\<rparr>) k = redis_live w k"
  by (simp add: redis_live_def split: option.splits prod.splits)

text \<open>
  C10. With \<open>OAUTH_SUCCESS_URL\<close> unset, a callback that completes redirects to
  \<open>request.base_url\<close> followed by \<open>auth/success\<close>, whatever the request's headers and
  the \<open>BASE_URL\<close> variable are. Init, on the same request and environment, builds its
  return URL from \<open>BASE_URL\<close> when it is set and otherwise from the
  \<open>x-forwarded-proto\<close> and \<open>x-forwarded-host\<close> headers, falling back to the URL's own scheme
  and host. Behind a proxy the two differ, as the sample request shows.
\<close>

theorem success_redirect_ignores_proxy:
  assumes "redis_reached w (redis_calls w)"
    and "redis_live w state = Some raw" and "raw \<noteq> []"
    and "json_loads lib raw = Some (JObj kvs)"
    and "truthy (dict_get kvs ''userId'')"
    and "get_aurinko_config w = Inr cfg"
    and "http_peer w (exchange_request cfg code) = Response status body"
    and "200 \<le> status" and "status < 300"
    and "json_loads lib body = Some token_res"
    and "redis_reached w (Suc (redis_calls w))"
    and "not_set (getenv w ''WEBHOOK_URL'')
         \<or> http_peer w (webhook_request (the (getenv w ''WEBHOOK_URL'')) (dict_get kvs ''userId''))
             \<noteq> BadURL"
    and "environ w ''OAUTH_SUCCESS_URL'' = None"
  shows "fst (oauth_callback lib (request\<lparr>headers := h\<rparr>) code state
                (w\<lparr>environ := (environ w)(''BASE_URL'' := b)\<rparr>))
           = Inr (RedirectResponse (base_url request @ ''auth/success''))
       \<and> fst (init_oauth (request\<lparr>headers := h\<rparr>) userId
                (w\<lparr>environ := (environ w)(''BASE_URL'' := b)\<rparr>))
           = Inr (RedirectResponse
                    (authorize_url cfg
                       (case b of
                          Some v \<Rightarrow> v
                        | None \<Rightarrow>
                            (case h ''x-forwarded-proto'' of
                               None \<Rightarrow> url_scheme request | Some v \<Rightarrow> v)
                            @ ''://''
                            @ (case h ''x-forwarded-host'' of
                                 None \<Rightarrow> url_netloc request | Some v \<Rightarrow> v))
                       (uuid4_draw w (uuid4_calls w))))"
proof -
  define w' where "w' = w\<lparr>environ := (environ w)(''BASE_URL'' := b)\<rparr>"
  define request' where "request' = request\<lparr>headers := h\<rparr>"
  have r: "redis_reached w' (redis_calls w')"
    and r': "redis_reached w' (Suc (redis_calls w'))"
    using assms(1,11) by (simp_all add: w'_def)
  have live: "redis_live w' state = Some raw"
    using assms(2) by (simp add: w'_def)
  have cfg': "get_aurinko_config w' = Inr cfg"
    using assms(6) by (simp add: w'_def get_aurinko_config_def getenv_def)
  have peer: "http_peer w' (exchange_request cfg code) = Response status body"
    using assms(7) by (simp add: w'_def)
  have hook: "not_set (getenv w' ''WEBHOOK_URL'')
         \<or> http_peer w' (webhook_request (the (getenv w' ''WEBHOOK_URL'')) (dict_get kvs ''userId''))
             \<noteq> BadURL"
    using assms(12) by (simp add: w'_def getenv_def)
  have target: "success_url request' w' = base_url request @ ''auth/success''"
    using assms(13) by (simp add: success_url_def getenv_default_def w'_def request'_def)
  have cb: "fst (oauth_callback lib request' code state w')
              = Inr (RedirectResponse (base_url request @ ''auth/success''))"
    using callback_completes [OF r live assms(3,4,5) cfg' peer assms(8,9,10) r' hook, of request']
    by (simp add: target)
  have base: "init_base_url request' w' =
                (case b of
                   Some v \<Rightarrow> v
                 | None \<Rightarrow>
                     (case h ''x-forwarded-proto'' of
                        None \<Rightarrow> url_scheme request | Some v \<Rightarrow> v)
                     @ ''://''
                     @ (case h ''x-forwarded-host'' of
                          None \<Rightarrow> url_netloc request | Some v \<Rightarrow> v))"
    by (simp add: init_base_url_def getenv_default_def w'_def request'_def split: option.splits)
  have "fst (init_oauth request' userId w')
          = Inr (RedirectResponse
                   (authorize_url cfg (init_base_url request' w') (uuid4_draw w' (uuid4_calls w'))))"
    by (simp add: init_oauth_reached [OF cfg' r])
  then have ini: "fst (init_oauth request' userId w')
          = Inr (RedirectResponse
                   (authorize_url cfg (init_base_url request' w') (uuid4_draw w (uuid4_calls w))))"
    by (simp add: w'_def)
  show ?thesis
    using cb ini unfolding base by (simp add: w'_def request'_def)
qed

theorem success_redirect_ignores_proxy_witness:
  "fst (oauth_callback sample_lib (sample_request\<lparr>headers := headers sample_request\<rparr>)
          ''good'' ''st-live''
          (sample_world\<lparr>environ := (environ sample_world)(''BASE_URL'' := None)\<rparr>))
     = Inr (RedirectResponse ''http://10.0.0.5:8000/auth/success'')
   \<and> fst (init_oauth (sample_request\<lparr>headers := headers sample_request\<rparr>) ''u1''
          (sample_world\<lparr>environ := (environ sample_world)(''BASE_URL'' := None)\<rparr>))
     = Inr (RedirectResponse
       (''https://api.aurinko.io/v1/auth/authorize?clientId=id&serviceType=Google''
        @ ''&scopes=Mail.Read%20Mail.Send&responseType=code''
        @ ''&returnUrl=https%3A//app.example.com/auth/callback''
        @ ''&state=3f2b8c1e-5d4a-4e6f-9a7b-0c1d2e3f4a5b''))"
proof -
  have t: "truthy (dict_get [(''userId'', JStr ''u1'')] ''userId'')"
    by (simp add: dict_get_def)
  have s: "(200::nat) \<le> 200" "(200::nat) < 300" by simp_all
  have q: "redis_reached sample_world (redis_calls sample_world)"
    and q': "redis_reached sample_world (Suc (redis_calls sample_world))"
    by (rule sample_reached(1))+
  have hook: "not_set (getenv sample_world ''WEBHOOK_URL'')
         \<or> http_peer sample_world (webhook_request (the (getenv sample_world ''WEBHOOK_URL''))
               (dict_get [(''userId'', JStr ''u1'')] ''userId'')) \<noteq> BadURL"
    using sample_webhook_unset by simp
  have unset: "environ sample_world ''OAUTH_SUCCESS_URL'' = None"
    by (simp add: sample_world_def)
  have hd: "headers sample_request ''x-forwarded-proto'' = Some ''https''"
    "headers sample_request ''x-forwarded-host'' = Some ''app.example.com''"
    "base_url sample_request = ''http://10.0.0.5:8000/''"
    by (simp_all add: sample_request_def)
  show ?thesis
    using success_redirect_ignores_proxy [OF q sample_live(1) sample_state_text
        sample_loads_state t sample_config sample_peer_good s sample_loads_token q' hook unset,
        where request = sample_request and h = "headers sample_request" and b = None
          and userId = "''u1''"]
    by (simp add: hd authorize_url_def quoted_default_scopes quoted_sample_return [simplified]
        sample_uuid)
qed

end
